theory Spec2Isabelle
  imports Complex_Main "HOL-Library.AList" "HOL-Library.Option_ord"
begin

section \<open>Data model\<close>

text \<open>
  The Submission Evaluation API (app.py, onchain.py, models.py, schemas.py, db.py).
  Python floats are modelled by exact rationals: the rounding of \<open>+\<close> and \<open>/\<close> to binary64
  is not part of the model, \<open>round(x, 4)\<close> is rounding to four decimals, ties to even.
  Timestamps (\<open>datetime.now\<close>, \<open>time.time\<close>) and the values of \<open>uuid.uuid4\<close> are inputs
  of the operations. A MongoDB collection is the list of its documents in insertion order;
  \<open>find_one\<close> returns the first match and \<open>update_one\<close> changes the first match.
  A document is a record of the keys the code reads; a key that the code reads with
  \<open>.get\<close> or tests with \<open>in\<close>, or that the code itself leaves out when it writes the
  document, is optional (\<open>None\<close> = the key is absent).
\<close>

type_synonym score = rat
type_synonym datetime = nat

datatype error =
    HTTPException nat string
  | ZeroDivisionError
  | ValidationError
  | ValueError

text \<open>The four scoring constants read from the environment (app.py 31-34).\<close>

record config =
  MAX_SCORE :: score
  AGREE_SCORE :: score
  DISAGREE_SCORE :: score
  NEITHER_SCORE :: score

text \<open>
  models.Question and schemas.QuestionRead; a document of the questions collection has
  MongoDB's \<open>_id\<close> besides (questions.py inserts the catalog without one).
  \<open>Question(**question)\<close> keeps the declared fields: \<open>Question.truncate\<close>.
\<close>

record Question =
  q_id :: string
  project_statement :: string
  project_description :: "string option"
  evaluator_statement :: string
  evaluator_description :: "string option"
  q_section :: string
  q_order :: int

record QuestionDoc = Question +
  q_oid :: string

text \<open>schemas.SubmissionAnswerCreate and schemas.EvaluationAnswerCreate: the same two fields.\<close>

record AnswerCreate =
  ac_question_id :: string
  ac_answer :: string

text \<open>models.SubmissionAnswer and models.EvaluationAnswer, as stored by \<open>model_dump\<close>.\<close>

record Answer =
  a_id :: string
  a_question_id :: string
  a_answer :: string

text \<open>schemas.SubmissionAnswerRead and schemas.EvaluationAnswerRead.\<close>

record AnswerRead =
  ar_id :: string
  ar_question_id :: string
  ar_answer :: string
  ar_question :: Question

text \<open>
  An evaluation document (models.Evaluation dumped): stored in the evaluations collection
  and embedded in the submission. \<open>e_score = None\<close>: the key is absent or null
  (\<open>existing_eval.get('score') is not None\<close> treats both alike).
\<close>

record Evaluation =
  e_id :: string
  e_date_completed :: "datetime option"
  e_evaluator :: string
  e_submission_id :: string
  e_score :: "score option"
  e_answers :: "Answer list option"

text \<open>
  A category document. \<open>create_category\<close> stores \<open>schemas.CategoryCreate.model_dump()\<close>,
  which has no \<open>evaluators\<close> key; models.Category requires one.
\<close>

record Category =
  c_name :: string
  c_description :: "string option"
  c_slug :: string
  c_evaluators :: "string list option"

text \<open>The score key of a submission document: absent, null, or a number.\<close>

datatype score_field = NoScoreKey | Null | Score score

record Submission =
  s_id :: string
  s_date_completed :: "datetime option"
  s_project_id :: string
  s_project_name :: string
  s_karma_gap_id :: string
  s_score :: score_field
  s_answers :: "Answer list option"
  s_evaluations :: "Evaluation list option"
  s_category :: Category
  s_owner :: "string option"

record db =
  categories :: "Category list"
  submissions :: "Submission list"
  questions :: "QuestionDoc list"
  evaluations :: "Evaluation list"

text \<open>schemas.EvaluationCreate, the body of POST /evaluation.\<close>

record EvaluationCreate =
  ec_evaluator :: string
  ec_submission_id :: string
  ec_answers :: "AnswerCreate list"

text \<open>schemas.EvaluationWithAnswersRead.\<close>

record EvaluationWithAnswersRead =
  er_id :: string
  er_date_completed :: "datetime option"
  er_evaluator :: string
  er_submission_id :: string
  er_score :: "score option"
  er_answers :: "AnswerRead list"

section \<open>Collections\<close>

definition find_one :: "('a \<Rightarrow> bool) \<Rightarrow> 'a list \<Rightarrow> 'a option" where
  "find_one P docs = List.find P docs"

fun update_one :: "('a \<Rightarrow> bool) \<Rightarrow> ('a \<Rightarrow> 'a) \<Rightarrow> 'a list \<Rightarrow> 'a list" where
  "update_one P f [] = []"
| "update_one P f (x # xs) = (if P x then f x # xs else x # update_one P f xs)"

definition insert_one :: "'a \<Rightarrow> 'a list \<Rightarrow> 'a list" where
  "insert_one doc docs = docs @ [doc]"

section \<open>Scoring (app.py 351-363, 389-399)\<close>

text \<open>Python's \<open>round(x, n)\<close> on an exact value: to \<open>n\<close> decimals, ties to even.\<close>

definition round_half_even :: "rat \<Rightarrow> int" where
  "round_half_even x =
     (let f = \<lfloor>x\<rfloor>; d = x - of_int f
      in if d < 1 / 2 then f else if 1 / 2 < d then f + 1
         else if even f then f else f + 1)"

definition py_round :: "rat \<Rightarrow> nat \<Rightarrow> rat" where
  "py_round x n = of_int (round_half_even (x * 10 ^ n)) / 10 ^ n"

text \<open>
  The loop of lines 353-361, \<open>s\<close> the running \<open>evaluation_score\<close>: a code other than
  "1", "2", "3" assigns \<open>0.0\<close> to the running total and the loop goes on.
\<close>

fun evaluation_score_loop :: "config \<Rightarrow> score \<Rightarrow> AnswerCreate list \<Rightarrow> score" where
  "evaluation_score_loop cfg s [] = s"
| "evaluation_score_loop cfg s (a # as) =
     evaluation_score_loop cfg
       (if ac_answer a = ''1'' then s + AGREE_SCORE cfg
        else if ac_answer a = ''2'' then s + DISAGREE_SCORE cfg
        else if ac_answer a = ''3'' then s + NEITHER_SCORE cfg
        else 0) as"

text \<open>Lines 351-363: \<open>evaluation_score / MAX_SCORE\<close> raises when \<open>MAX_SCORE\<close> is zero.\<close>

definition calculated_score :: "config \<Rightarrow> AnswerCreate list \<Rightarrow> error + score" where
  "calculated_score cfg answers =
     (let evaluation_score = evaluation_score_loop cfg 0 answers
      in if MAX_SCORE cfg = 0 then Inl ZeroDivisionError
         else Inr (py_round (evaluation_score / MAX_SCORE cfg) 4))"

text \<open>Lines 389-399: the scores that are not null, then their rounded mean, or \<open>0.0\<close>.\<close>

definition all_evaluation_scores :: "Evaluation list \<Rightarrow> score list" where
  "all_evaluation_scores submission_evaluations = List.map_filter e_score submission_evaluations"

definition new_submission_score :: "Evaluation list \<Rightarrow> score" where
  "new_submission_score submission_evaluations =
     (let scores = all_evaluation_scores submission_evaluations
      in if scores = [] then 0
         else py_round (sum_list scores / of_nat (length scores)) 4)"

section \<open>Answers joined with their questions\<close>

text \<open>
  The block that app.py repeats in every endpoint that returns answers (284-294, 424-435,
  464-475, 514-526): the questions whose key is among the answers' question ids are put in
  a dict by that key (a later document replaces an earlier one with the same key), and an
  answer is returned only if the dict has its question. The key is \<open>id\<close>, except in
  POST /submission, which queries and indexes by \<open>_id\<close> (181-184).
\<close>

definition questions_dict ::
  "(QuestionDoc \<Rightarrow> string) \<Rightarrow> QuestionDoc list \<Rightarrow> string list \<Rightarrow> (string \<rightharpoonup> QuestionDoc)" where
  "questions_dict key qs question_ids =
     fold (\<lambda>question m. m(key question \<mapsto> question))
       (filter (\<lambda>question. key question \<in> set question_ids) qs) Map.empty"

definition answers_with_questions ::
  "(QuestionDoc \<Rightarrow> string) \<Rightarrow> QuestionDoc list \<Rightarrow> Answer list \<Rightarrow> AnswerRead list" where
  "answers_with_questions key qs answers =
     (let qd = questions_dict key qs (map a_question_id answers)
      in List.map_filter
           (\<lambda>a. case qd (a_question_id a) of
                  None \<Rightarrow> None
                | Some question \<Rightarrow>
                    Some \<lparr>ar_id = a_id a, ar_question_id = a_question_id a,
                          ar_answer = a_answer a,
                          ar_question = Question.truncate question\<rparr>)
           answers)"

section \<open>POST /evaluation (app.py 339-444)\<close>

text \<open>
  \<open>uuid4 k\<close> is the value of the \<open>k\<close>-th call of \<open>uuid.uuid4()\<close> in the request (one per
  answer, then one for the evaluation), \<open>now\<close> the value of \<open>datetime.now\<close>.
\<close>

definition created_answers :: "(nat \<Rightarrow> string) \<Rightarrow> AnswerCreate list \<Rightarrow> Answer list" where
  "created_answers uuid4 answers =
     map (\<lambda>(k, answer_data).
            \<lparr>a_id = uuid4 k, a_question_id = ac_question_id answer_data,
             a_answer = ac_answer answer_data\<rparr>)
       (enumerate 0 answers)"

definition create_evaluation_with_answers ::
  "config \<Rightarrow> (nat \<Rightarrow> string) \<Rightarrow> datetime \<Rightarrow> EvaluationCreate \<Rightarrow> db
     \<Rightarrow> error + (db \<times> EvaluationWithAnswersRead)" where
  "create_evaluation_with_answers cfg uuid4 now evaluation_data d =
     (case find_one (\<lambda>s. s_id s = ec_submission_id evaluation_data) (submissions d) of
        None \<Rightarrow> Inl (HTTPException 404 ''Submission not found'')
      | Some submission \<Rightarrow>
         (case calculated_score cfg (ec_answers evaluation_data) of
            Inl e \<Rightarrow> Inl e
          | Inr score \<Rightarrow>
             (let evaluation =
                    \<lparr>e_id = uuid4 (length (ec_answers evaluation_data)),
                     e_date_completed = Some now,
                     e_evaluator = ec_evaluator evaluation_data,
                     e_submission_id = ec_submission_id evaluation_data,
                     e_score = Some score,
                     e_answers = Some (created_answers uuid4 (ec_answers evaluation_data))\<rparr>;
                  submission_evaluations =
                    (case s_evaluations submission of None \<Rightarrow> [] | Some es \<Rightarrow> es)
                      @ [evaluation];
                  d1 = d\<lparr>submissions :=
                          update_one (\<lambda>s. s_id s = ec_submission_id evaluation_data)
                            (\<lambda>s. s\<lparr>s_evaluations := Some submission_evaluations,
                                   s_score := Score (new_submission_score submission_evaluations)\<rparr>)
                            (submissions d)\<rparr>;
                  d2 = d1\<lparr>evaluations := insert_one evaluation (evaluations d1)\<rparr>
              in Inr (d2,
                   \<lparr>er_id = e_id evaluation,
                    er_date_completed = e_date_completed evaluation,
                    er_evaluator = e_evaluator evaluation,
                    er_submission_id = e_submission_id evaluation,
                    er_score = e_score evaluation,
                    er_answers =
                      answers_with_questions q_id (questions d2)
                        (created_answers uuid4 (ec_answers evaluation_data))\<rparr>))))"

text \<open>
  Every raise of the operations modelled here comes before the operation's first write, so
  an error result carries no state: the store after a request is the returned one, or the
  old one when the request failed.
\<close>

definition db_after :: "db \<Rightarrow> error + (db \<times> 'r) \<Rightarrow> db" where
  "db_after d result = (case result of Inl e \<Rightarrow> d | Inr (d', r) \<Rightarrow> d')"

section \<open>POST /category (app.py 61-82)\<close>

text \<open>schemas.CategoryCreate and schemas.CategoryRead: name, description, slug.\<close>

record CategoryCreate =
  cc_name :: string
  cc_description :: "string option"
  cc_slug :: string

record CategoryRead =
  cr_name :: string
  cr_description :: "string option"
  cr_slug :: string

definition CategoryRead_of :: "Category \<Rightarrow> CategoryRead" where
  "CategoryRead_of c = \<lparr>cr_name = c_name c, cr_description = c_description c, cr_slug = c_slug c\<rparr>"

definition create_category :: "CategoryCreate \<Rightarrow> db \<Rightarrow> error + (db \<times> CategoryRead)" where
  "create_category category d =
     (case find_one (\<lambda>c. c_slug c = cc_slug category) (categories d) of
        Some existing_category \<Rightarrow>
          Inl (HTTPException 400
                (''Category with slug '' @ [CHR 0x27] @ cc_slug category @ [CHR 0x27]
                   @ '' already exists''))
      | None \<Rightarrow>
          (let category_dict =
                 \<lparr>c_name = cc_name category, c_description = cc_description category,
                  c_slug = cc_slug category, c_evaluators = None\<rparr>;
               d' = d\<lparr>categories := insert_one category_dict (categories d)\<rparr>
           in Inr (d', CategoryRead_of category_dict)))"

section \<open>POST /submission (app.py 167-247)\<close>

text \<open>schemas.SubmissionCreate.\<close>

record SubmissionCreate =
  sc_project_id :: string
  sc_project_name :: string
  sc_karma_gap_id :: string
  sc_answers :: "AnswerCreate list"
  sc_category :: string

text \<open>The external project registry's data (schemas.KarmaData), opaque here.\<close>

typedecl KarmaData

text \<open>schemas.SubmissionWithAnswersRead.\<close>

record SubmissionWithAnswersRead =
  sr_id :: string
  sr_date_completed :: "datetime option"
  sr_project_id :: string
  sr_project_name :: string
  sr_karma_gap_id :: string
  sr_score :: "score option"
  sr_answers :: "AnswerRead list"
  sr_category :: CategoryRead
  sr_karma_data :: "KarmaData option"
  sr_last_evaluation_date :: "datetime option"
  sr_evaluation_count :: "nat option"

text \<open>
  The constructors of models.py. \<open>Category\<close> declares \<open>evaluators: List[str]\<close> and
  \<open>Submission\<close> declares \<open>owner: str\<close>, both without a default (models.py 16, 99), so
  pydantic raises a ValidationError when the field is not given.
\<close>

definition Category_init :: "Category \<Rightarrow> error + Category" where
  "Category_init c = (case c_evaluators c of None \<Rightarrow> Inl ValidationError | Some es \<Rightarrow> Inr c)"

definition Submission_init :: "Submission \<Rightarrow> error + Submission" where
  "Submission_init s = (case s_owner s of None \<Rightarrow> Inl ValidationError | Some ow \<Rightarrow> Inr s)"

text \<open>
  The call \<open>Submission(...)\<close> of lines 197-207 passes no \<open>owner\<close>: \<open>s_owner = None\<close>.
  Its last argument \<open>Category(**category)\<close> is evaluated first.
\<close>

definition create_submission_with_answers ::
  "(nat \<Rightarrow> string) \<Rightarrow> datetime \<Rightarrow> SubmissionCreate \<Rightarrow> db
     \<Rightarrow> error + (db \<times> SubmissionWithAnswersRead)" where
  "create_submission_with_answers uuid4 now submission_data d =
     (case find_one (\<lambda>c. c_slug c = sc_category submission_data) (categories d) of
        None \<Rightarrow> Inl (HTTPException 404 ''Category not found'')
      | Some category \<Rightarrow>
         (case Category_init category of
            Inl e \<Rightarrow> Inl e
          | Inr category_model \<Rightarrow>
             (case Submission_init
                     \<lparr>s_id = uuid4 (length (sc_answers submission_data)),
                      s_date_completed = Some now,
                      s_project_id = sc_project_id submission_data,
                      s_project_name = sc_project_name submission_data,
                      s_karma_gap_id = sc_karma_gap_id submission_data,
                      s_score = Null,
                      s_answers = Some (created_answers uuid4 (sc_answers submission_data)),
                      s_evaluations = Some [],
                      s_category = category_model,
                      s_owner = None\<rparr> of
                Inl e \<Rightarrow> Inl e
              | Inr submission \<Rightarrow>
                 (let submission_dict = submission\<lparr>s_category := category\<rparr>;
                      d' = d\<lparr>submissions := insert_one submission_dict (submissions d)\<rparr>;
                      created_submission = submission_dict
                  in Inr (d',
                       \<lparr>sr_id = s_id created_submission,
                        sr_date_completed = s_date_completed created_submission,
                        sr_project_id = s_project_id created_submission,
                        sr_project_name = s_project_name created_submission,
                        sr_karma_gap_id = s_karma_gap_id created_submission,
                        sr_score = (case s_score created_submission of
                                      Score x \<Rightarrow> Some x | _ \<Rightarrow> None),
                        sr_answers =
                          answers_with_questions q_oid (questions d)
                            (case s_answers created_submission of
                               None \<Rightarrow> [] | Some as \<Rightarrow> as),
                        sr_category = CategoryRead_of (s_category created_submission),
                        sr_karma_data = None,
                        sr_last_evaluation_date = None,
                        sr_evaluation_count = Some 0\<rparr>)))))"

section \<open>GET /submissions/{id}, GET /evaluations/{id}, GET /submissions/{id}/evaluations\<close>






section \<open>Wallet login helpers (onchain.py)\<close>




text \<open>
  \<open>_role\<close> (51-63). \<open>to_checksum_address\<close> is eth_utils' function, a parameter here:
  \<open>None\<close> when it raises ValueError on a string that is not an address. The query
  \<open>{"evaluators": address}\<close> matches a document whose evaluators array has the address.
\<close>

definition role :: "(string \<Rightarrow> string option) \<Rightarrow> Category list \<Rightarrow> string \<Rightarrow> error + string" where
  "role to_checksum_address cats address =
     (if address = [] then Inr ''user''
      else case to_checksum_address address of
             None \<Rightarrow> Inl ValueError
           | Some address' \<Rightarrow>
               (case find_one (\<lambda>c. case c_evaluators c of
                                      None \<Rightarrow> False
                                    | Some es \<Rightarrow> address' \<in> set es) cats of
                  Some exists \<Rightarrow> Inr ''evaluator''
                | None \<Rightarrow> Inr ''user''))"

text \<open>
  \<open>_verify_token\<close> (74-80). \<open>jwt.decode\<close> is python-jose's function, a parameter here:
  it returns the claims or raises one of the exceptions it documents, \<open>JWTError\<close> (the
  signature is invalid in any way) or its subclasses \<open>ExpiredSignatureError\<close> and
  \<open>JWTClaimsError\<close>; \<open>except JWTError\<close> catches the three.
\<close>

datatype jose_exception = JWTError | ExpiredSignatureError | JWTClaimsError



section \<open>The specification's vocabulary and example data\<close>

text \<open>
  The words of the specification, for comparison with the code: the valid answer codes,
  the weight of a code (\<open>"1"\<close> agree, \<open>"2"\<close> disagree, \<open>"3"\<close> neither), and the mean of
  a list of scores. Then the data of the examples: the scoring constants of the
  specification's examples, and a store with one category and one submission that has no
  evaluation yet.
\<close>

definition valid_code :: "string \<Rightarrow> bool" where
  "valid_code code \<longleftrightarrow> code = ''1'' \<or> code = ''2'' \<or> code = ''3''"

definition spec_weight :: "config \<Rightarrow> string \<Rightarrow> score" where
  "spec_weight cfg code =
     (if code = ''1'' then AGREE_SCORE cfg
      else if code = ''2'' then DISAGREE_SCORE cfg
      else if code = ''3'' then NEITHER_SCORE cfg
      else 0)"


definition answer_of :: "string \<Rightarrow> string \<Rightarrow> AnswerCreate" where
  "answer_of q code = \<lparr>ac_question_id = q, ac_answer = code\<rparr>"

definition cfg4 :: config where
  "cfg4 = \<lparr>MAX_SCORE = 4, AGREE_SCORE = 1, DISAGREE_SCORE = 0, NEITHER_SCORE = 1 / 2\<rparr>"


definition category0 :: Category where
  "category0 = \<lparr>c_name = ''Water'', c_description = None, c_slug = ''water'',
                 c_evaluators = Some [''0xAb'']\<rparr>"

definition submission0 :: Submission where
  "submission0 = \<lparr>s_id = ''s1'', s_date_completed = Some 0, s_project_id = ''p1'',
                   s_project_name = ''Wells'', s_karma_gap_id = ''k1'', s_score = Null,
                   s_answers = Some [], s_evaluations = Some [],
                   s_category = category0, s_owner = Some ''0xCd''\<rparr>"

definition db0 :: db where
  "db0 = \<lparr>categories = [category0], submissions = [submission0], questions = [],
           evaluations = []\<rparr>"

definition request_of :: "string list \<Rightarrow> EvaluationCreate" where
  "request_of codes = \<lparr>ec_evaluator = ''0xAb'', ec_submission_id = ''s1'',
                        ec_answers = map (answer_of ''q1'') codes\<rparr>"

text \<open>
  What the evaluation-creation operation must leave alone in a submission: everything but
  \<open>score\<close> and \<open>evaluations\<close>.
\<close>

definition same_outside_score_and_evaluations :: "Submission \<Rightarrow> Submission \<Rightarrow> bool" where
  "same_outside_score_and_evaluations s s' \<longleftrightarrow>
     s_id s' = s_id s \<and> s_date_completed s' = s_date_completed s
     \<and> s_project_id s' = s_project_id s \<and> s_project_name s' = s_project_name s
     \<and> s_karma_gap_id s' = s_karma_gap_id s \<and> s_answers s' = s_answers s
     \<and> s_category s' = s_category s \<and> s_owner s' = s_owner s"

definition category_soil :: CategoryCreate where
  "category_soil = \<lparr>cc_name = ''Soil'', cc_description = Some ''Soil health'', cc_slug = ''soil''\<rparr>"

definition category_water :: CategoryCreate where
  "category_water = \<lparr>cc_name = ''Water again'', cc_description = None, cc_slug = ''water''\<rparr>"

definition submission_request0 :: SubmissionCreate where
  "submission_request0 = \<lparr>sc_project_id = ''p2'', sc_project_name = ''Pumps'',
      sc_karma_gap_id = ''k2'', sc_answers = [answer_of ''q1'' ''We dug wells''],
      sc_category = ''water''\<rparr>"









text \<open>
  An address is listed when some category's evaluators list has it; a registry has no
  expired entry at a time when no expiry is before that time. Then stand-ins for the two
  library functions in the examples: a checksum function that knows two addresses, and a
  decoder that accepts the token \<open>good\<close> under the key \<open>secret\<close> and finds \<open>old\<close>
  expired.
\<close>

definition listed_evaluator :: "string \<Rightarrow> Category list \<Rightarrow> bool" where
  "listed_evaluator a cats \<longleftrightarrow>
     (\<exists>c \<in> set cats. case c_evaluators c of None \<Rightarrow> False | Some es \<Rightarrow> a \<in> set es)"


definition checksum0 :: "string \<Rightarrow> string option" where
  "checksum0 a = (if a = ''0xab'' then Some ''0xAb''
                  else if a = ''0xcd'' then Some ''0xCd'' else None)"



section \<open>Lemmas on scoring and on the collections\<close>

lemma loop_valid:
  "\<forall>a \<in> set as. valid_code (ac_answer a) \<Longrightarrow>
   evaluation_score_loop cfg s as = s + sum_list (map (\<lambda>a. spec_weight cfg (ac_answer a)) as)"
  by (induction as arbitrary: s) (auto simp: valid_code_def spec_weight_def)

lemma loop_append:
  "evaluation_score_loop cfg s (xs @ ys) =
   evaluation_score_loop cfg (evaluation_score_loop cfg s xs) ys"
  by (induction xs arbitrary: s) auto

lemma loop_after_invalid:
  assumes "\<not> valid_code (ac_answer b)" and "\<forall>a \<in> set ys. valid_code (ac_answer a)"
  shows "evaluation_score_loop cfg s (xs @ b # ys) =
         sum_list (map (\<lambda>a. spec_weight cfg (ac_answer a)) ys)"
  using assms by (simp add: loop_append loop_valid) (simp add: valid_code_def)



lemma create_evaluation_succeeds:
  assumes "find_one (\<lambda>s. s_id s = ec_submission_id req) (submissions d) = Some submission"
    and "MAX_SCORE cfg \<noteq> 0"
  shows "\<exists>d' r. create_evaluation_with_answers cfg uuid4 now req d = Inr (d', r)
           \<and> calculated_score cfg (ec_answers req) = Inr (the (er_score r))
           \<and> er_score r \<noteq> None
           \<and> evaluations d' = evaluations d @ [\<lparr>e_id = er_id r,
                 e_date_completed = er_date_completed r, e_evaluator = er_evaluator r,
                 e_submission_id = er_submission_id r, e_score = er_score r,
                 e_answers = Some (created_answers uuid4 (ec_answers req))\<rparr>]"
  using assms
  by (simp add: create_evaluation_with_answers_def calculated_score_def Let_def insert_one_def)

lemma spec_example_119:
  "calculated_score cfg4 (map (answer_of ''q1'') [''1'', ''1'', ''9'']) = Inr 0"
  by (simp add: calculated_score_def answer_of_def cfg4_def py_round_def round_half_even_def Let_def)

lemma find_one_None_iff: "find_one P xs = None \<longleftrightarrow> (\<forall>x \<in> set xs. \<not> P x)"
  unfolding find_one_def by (auto simp: find_None_iff)

lemma find_one_split:
  "find_one P xs = Some x \<Longrightarrow>
   \<exists>pre post. xs = pre @ x # post \<and> update_one P f xs = pre @ f x # post"
proof (induction xs)
  case Nil
  then show ?case by (simp add: find_one_def)
next
  case (Cons y ys)
  show ?case
  proof (cases "P y")
    case True
    with Cons.prems have "x = y" by (simp add: find_one_def)
    with True show ?thesis by (intro exI [of _ "[]"] exI [of _ ys]) simp
  next
    case False
    with Cons.prems have "find_one P ys = Some x" by (simp add: find_one_def)
    from Cons.IH [OF this] obtain pre post
      where "ys = pre @ x # post" "update_one P f ys = pre @ f x # post" by blast
    with False show ?thesis by (intro exI [of _ "y # pre"] exI [of _ post]) simp
  qed
qed

lemma create_submission_fails:
  "\<exists>e. create_submission_with_answers uuid4 now submission_data d = Inl e
       \<and> (e = HTTPException 404 ''Category not found'' \<or> e = ValidationError)"
  by (simp add: create_submission_with_answers_def Category_init_def Submission_init_def
      split: option.splits sum.splits)









lemma new_submission_score_all_null:
  "list_all (\<lambda>e. e_score e = None) evs \<Longrightarrow> new_submission_score evs = 0"
  by (induction evs) (auto simp: new_submission_score_def all_evaluation_scores_def Let_def)

lemma new_evaluation_is_scored:
  "e_score new = Some x \<Longrightarrow> all_evaluation_scores (old @ [new]) \<noteq> []"
  by (induction old) (auto simp: all_evaluation_scores_def split: option.splits)

section \<open>The claims on scoring\<close>



text \<open>
  Claim C1 says that one answer with a code outside "1", "2", "3" makes the evaluation's
  score 0.0 wherever it stands. The code assigns 0.0 to the running total and goes on with
  the next answer, so the answers after the last such code still count: with the constants
  1, 0, 0.5 and 4, the answers "9", "1" score 0.25, in the response and in the submission's
  aggregate. (Lemma \<open>loop_after_invalid\<close> is the general fact, \<open>spec_example_119\<close> the
  specification's own example, where the invalid code comes last.)
\<close>
theorem invalid_code_before_valid_code_scores_nonzero:
  "\<exists>d' r s'. create_evaluation_with_answers cfg4 (\<lambda>k. ''u'') 7 (request_of [''9'', ''1'']) db0
               = Inr (d', r)
     \<and> er_score r = Some (1 / 4)
     \<and> find_one (\<lambda>s. s_id s = ''s1'') (submissions d') = Some s'
     \<and> s_score s' = Score (1 / 4)"
  by (simp add: create_evaluation_with_answers_def calculated_score_def Let_def insert_one_def
      find_one_def request_of_def answer_of_def db0_def submission0_def cfg4_def
      new_submission_score_def all_evaluation_scores_def py_round_def round_half_even_def)




section \<open>The claims on the store\<close>

text \<open>
  Claim C4 says that a newly created submission has score null, that the score stays null
  while the submission has no evaluation, and that the aggregate is 0.0, not null, when
  evaluation creation finds only null scores. POST /submission does build its record with
  \<open>score=None\<close> and \<open>evaluations=[]\<close>, but it passes no \<open>owner\<close> to
  \<open>models.Submission\<close>, which requires one: the constructor raises before
  \<open>insert_one\<close>, on every request, and no submission is created. (The 0.0 of the
  aggregation is lemma \<open>new_submission_score_all_null\<close>; inside the operation the new
  evaluation always has a score, lemma \<open>new_evaluation_is_scored\<close>.)
\<close>

theorem create_submission_never_creates:
  "(\<exists>e. create_submission_with_answers uuid4 now submission_data d = Inl e)
   \<and> db_after d (create_submission_with_answers uuid4 now submission_data d) = d
   \<and> create_submission_with_answers uuid4 now submission_request0 db0 = Inl ValidationError"
proof -
  have "\<exists>e. create_submission_with_answers uuid4 now submission_data d = Inl e"
    by (simp add: create_submission_with_answers_def Category_init_def Submission_init_def
        split: option.splits sum.splits)
  moreover from this have
    "db_after d (create_submission_with_answers uuid4 now submission_data d) = d"
    by (auto simp: db_after_def)
  moreover have
    "create_submission_with_answers uuid4 now submission_request0 db0 = Inl ValidationError"
    by (simp add: create_submission_with_answers_def Category_init_def Submission_init_def
        submission_request0_def db0_def category0_def find_one_def)
  ultimately show ?thesis by blast
qed

text \<open>
  Claim C8. A category-creation request whose slug is the slug of a stored category fails
  with an HTTP error (status 400, "already exists") and leaves the store as it was; when no
  stored category has the slug, the request appends exactly one record, with the request's
  name, description and slug, and changes nothing else. Creation keeps the slugs of the
  collection distinct.
\<close>

theorem create_category_rejects_duplicate_slug:
  "(cc_slug category \<in> set (map c_slug (categories d)) \<longrightarrow>
      (\<exists>detail. create_category category d = Inl (HTTPException 400 detail))
      \<and> db_after d (create_category category d) = d)
   \<and> (cc_slug category \<notin> set (map c_slug (categories d)) \<longrightarrow>
      (\<exists>d' r new. create_category category d = Inr (d', r)
         \<and> categories d' = categories d @ [new]
         \<and> c_slug new = cc_slug category \<and> c_name new = cc_name category
         \<and> c_description new = cc_description category
         \<and> submissions d' = submissions d \<and> questions d' = questions d
         \<and> evaluations d' = evaluations d))
   \<and> (distinct (map c_slug (categories d)) \<longrightarrow>
        distinct (map c_slug (categories (db_after d (create_category category d)))))"
proof (intro conjI impI)
  assume dup: "cc_slug category \<in> set (map c_slug (categories d))"
  then have "find_one (\<lambda>c. c_slug c = cc_slug category) (categories d) \<noteq> None"
    by (auto simp: find_one_None_iff)
  then obtain c where c: "find_one (\<lambda>c. c_slug c = cc_slug category) (categories d) = Some c"
    by blast
  then show "\<exists>detail. create_category category d = Inl (HTTPException 400 detail)"
    by (simp add: create_category_def)
  from c show "db_after d (create_category category d) = d"
    by (simp add: create_category_def db_after_def)
next
  assume fresh: "cc_slug category \<notin> set (map c_slug (categories d))"
  then have n: "find_one (\<lambda>c. c_slug c = cc_slug category) (categories d) = None"
    by (force simp: find_one_None_iff)
  then show "\<exists>d' r new. create_category category d = Inr (d', r)
         \<and> categories d' = categories d @ [new]
         \<and> c_slug new = cc_slug category \<and> c_name new = cc_name category
         \<and> c_description new = cc_description category
         \<and> submissions d' = submissions d \<and> questions d' = questions d
         \<and> evaluations d' = evaluations d"
    by (simp add: create_category_def Let_def insert_one_def)
next
  assume dist: "distinct (map c_slug (categories d))"
  show "distinct (map c_slug (categories (db_after d (create_category category d))))"
  proof (cases "find_one (\<lambda>c. c_slug c = cc_slug category) (categories d)")
    case None
    then have "cc_slug category \<notin> set (map c_slug (categories d))"
      by (auto simp: find_one_None_iff)
    with dist None show ?thesis
      by (simp add: create_category_def db_after_def Let_def insert_one_def)
  next
    case (Some c)
    with dist show ?thesis by (simp add: create_category_def db_after_def)
  qed
qed

theorem create_category_rejects_duplicate_slug_witness:
  "cc_slug category_water \<in> set (map c_slug (categories db0))
   \<and> (\<exists>detail. create_category category_water db0 = Inl (HTTPException 400 detail))
   \<and> db_after db0 (create_category category_water db0) = db0
   \<and> cc_slug category_soil \<notin> set (map c_slug (categories db0))
   \<and> (\<exists>d' r new. create_category category_soil db0 = Inr (d', r)
         \<and> categories d' = categories db0 @ [new] \<and> c_slug new = ''soil'')
   \<and> distinct (map c_slug (categories db0))
   \<and> distinct (map c_slug (categories (db_after db0 (create_category category_soil db0))))"
proof -
  have dup: "cc_slug category_water \<in> set (map c_slug (categories db0))"
    by (simp add: category_water_def db0_def category0_def)
  have fresh: "cc_slug category_soil \<notin> set (map c_slug (categories db0))"
    by (simp add: category_soil_def db0_def category0_def)
  have dist: "distinct (map c_slug (categories db0))"
    by (simp add: db0_def)
  have soil: "cc_slug category_soil = ''soil''" by (simp add: category_soil_def)
  from create_category_rejects_duplicate_slug [of category_water db0]
    create_category_rejects_duplicate_slug [of category_soil db0]
  show ?thesis using dup fresh dist unfolding soil by blast
qed

text \<open>
  Claim C9. A successful evaluation-creation request changes one record of the submissions
  collection, the first with the request's submission id, and in it only \<open>evaluations\<close>
  and \<open>score\<close>: its id, answers, category snapshot, project identifiers, owner and
  completion timestamp stay, as do the categories and the questions. The other writing
  operations leave every stored submission as it is: category creation does not touch the
  collection, submission creation could only append to it. (The GET endpoints only query.)
\<close>

theorem evaluation_creation_frame:
  "(\<forall>d' r. create_evaluation_with_answers cfg uuid4 now req d = Inr (d', r) \<longrightarrow>
      (\<exists>pre target post target'.
          submissions d = pre @ target # post \<and> submissions d' = pre @ target' # post
        \<and> find_one (\<lambda>s. s_id s = ec_submission_id req) (submissions d) = Some target
        \<and> same_outside_score_and_evaluations target target')
      \<and> categories d' = categories d \<and> questions d' = questions d)
   \<and> submissions (db_after d (create_category category d)) = submissions d
   \<and> take (length (submissions d))
        (submissions (db_after d (create_submission_with_answers uuid4' now' submission_data d)))
      = submissions d"
proof (intro conjI allI impI)
  fix d' r
  assume run: "create_evaluation_with_answers cfg uuid4 now req d = Inr (d', r)"
  then obtain target where
    found: "find_one (\<lambda>s. s_id s = ec_submission_id req) (submissions d) = Some target"
    by (auto simp: create_evaluation_with_answers_def split: option.splits)
  from run found obtain sc where sc: "calculated_score cfg (ec_answers req) = Inr sc"
    by (auto simp: create_evaluation_with_answers_def split: sum.splits)
  let ?f = "\<lambda>s. s\<lparr>s_evaluations := Some ((case s_evaluations target of None \<Rightarrow> [] | Some es \<Rightarrow> es)
        @ [\<lparr>e_id = uuid4 (length (ec_answers req)), e_date_completed = Some now,
            e_evaluator = ec_evaluator req, e_submission_id = ec_submission_id req,
            e_score = Some sc,
            e_answers = Some (created_answers uuid4 (ec_answers req))\<rparr>]),
      s_score := Score (new_submission_score ((case s_evaluations target of None \<Rightarrow> [] | Some es \<Rightarrow> es)
        @ [\<lparr>e_id = uuid4 (length (ec_answers req)), e_date_completed = Some now,
            e_evaluator = ec_evaluator req, e_submission_id = ec_submission_id req,
            e_score = Some sc,
            e_answers = Some (created_answers uuid4 (ec_answers req))\<rparr>]))\<rparr>"
  have subs: "submissions d' =
      update_one (\<lambda>s. s_id s = ec_submission_id req) ?f (submissions d)"
    and cats: "categories d' = categories d" and qs: "questions d' = questions d"
    using run found sc by (auto simp: create_evaluation_with_answers_def Let_def)
  from find_one_split [OF found, of ?f] obtain pre post where
    "submissions d = pre @ target # post"
    "update_one (\<lambda>s. s_id s = ec_submission_id req) ?f (submissions d) = pre @ ?f target # post"
    by blast
  moreover have "same_outside_score_and_evaluations target (?f target)"
    by (simp add: same_outside_score_and_evaluations_def)
  ultimately show "\<exists>pre target post target'.
          submissions d = pre @ target # post \<and> submissions d' = pre @ target' # post
        \<and> find_one (\<lambda>s. s_id s = ec_submission_id req) (submissions d) = Some target
        \<and> same_outside_score_and_evaluations target target'"
    using found subs by metis
  show "categories d' = categories d" by (fact cats)
  show "questions d' = questions d" by (fact qs)
next
  show "submissions (db_after d (create_category category d)) = submissions d"
    by (simp add: create_category_def db_after_def Let_def split: option.splits)
next
  from create_submission_fails [of uuid4' now' submission_data d]
  show "take (length (submissions d))
        (submissions (db_after d (create_submission_with_answers uuid4' now' submission_data d)))
      = submissions d"
    by (auto simp: db_after_def)
qed

theorem evaluation_creation_frame_witness:
  "\<exists>d' r pre target post target'.
      create_evaluation_with_answers cfg4 (\<lambda>k. ''u'') 7 (request_of [''1'', ''3'']) db0
        = Inr (d', r)
    \<and> submissions db0 = pre @ target # post \<and> submissions d' = pre @ target' # post
    \<and> find_one (\<lambda>s. s_id s = ec_submission_id (request_of [''1'', ''3''])) (submissions db0)
        = Some target
    \<and> same_outside_score_and_evaluations target target'
    \<and> categories d' = categories db0 \<and> questions d' = questions db0"
proof -
  let ?req = "request_of [''1'', ''3'']"
  have found: "find_one (\<lambda>s. s_id s = ec_submission_id ?req) (submissions db0) = Some submission0"
    by (simp add: find_one_def request_of_def db0_def submission0_def)
  have max: "MAX_SCORE cfg4 \<noteq> 0" by (simp add: cfg4_def)
  from create_evaluation_succeeds [OF found max, of "\<lambda>k. ''u''" 7]
  obtain d' r where
    run: "create_evaluation_with_answers cfg4 (\<lambda>k. ''u'') 7 ?req db0 = Inr (d', r)"
    by blast
  from evaluation_creation_frame [of cfg4 "\<lambda>k. ''u''" 7 ?req db0] run
  show ?thesis by blast
qed



section \<open>The claims on the wallet login\<close>

text \<open>
  Claim C5. \<open>_role\<close> returns "evaluator" exactly when the checksummed form of the address
  is in the evaluators list of some category, and "user" otherwise; for the empty address
  it returns "user" without computing a checksum.
\<close>

theorem role_evaluator_iff_listed:
  "(address = [] \<longrightarrow> role to_checksum_address cats address = Inr ''user'')
   \<and> (address \<noteq> [] \<longrightarrow> to_checksum_address address = Some a \<longrightarrow>
        (role to_checksum_address cats address = Inr ''evaluator'' \<longleftrightarrow> listed_evaluator a cats)
      \<and> (\<not> listed_evaluator a cats \<longrightarrow> role to_checksum_address cats address = Inr ''user''))"
proof -
  let ?P = "\<lambda>c. case c_evaluators c of None \<Rightarrow> False | Some es \<Rightarrow> a \<in> set es"
  have "find_one ?P cats = None \<longleftrightarrow> \<not> listed_evaluator a cats"
    unfolding find_one_def listed_evaluator_def by (auto simp: find_None_iff)
  then show ?thesis
    by (cases "find_one ?P cats") (auto simp: role_def)
qed

theorem role_evaluator_iff_listed_witness:
  "role checksum0 [category0] '''' = Inr ''user''
   \<and> ''0xab'' \<noteq> [] \<and> checksum0 ''0xab'' = Some ''0xAb'' \<and> listed_evaluator ''0xAb'' [category0]
   \<and> role checksum0 [category0] ''0xab'' = Inr ''evaluator''
   \<and> checksum0 ''0xcd'' = Some ''0xCd'' \<and> \<not> listed_evaluator ''0xCd'' [category0]
   \<and> role checksum0 [category0] ''0xcd'' = Inr ''user''"
proof -
  have 1: "checksum0 ''0xab'' = Some ''0xAb''" and 2: "checksum0 ''0xcd'' = Some ''0xCd''"
    by (simp_all add: checksum0_def)
  have 3: "listed_evaluator ''0xAb'' [category0]" and 4: "\<not> listed_evaluator ''0xCd'' [category0]"
    by (simp_all add: listed_evaluator_def category0_def)
  from role_evaluator_iff_listed [of "''''" checksum0 "[category0]"]
    role_evaluator_iff_listed [of "''0xab''" checksum0 "[category0]" "''0xAb''"]
    role_evaluator_iff_listed [of "''0xcd''" checksum0 "[category0]" "''0xCd''"]
  show ?thesis using 1 2 3 4 by simp
qed






end
